theory Spec2Isabelle
  imports Main
begin

section \<open>Values shared by the server action and the pages\<close>

text \<open>
  A JavaScript exception (a rejected promise, under \<^verbatim>\<open>await\<close>) is a value of
  \<open>js_error\<close>; a computation that may throw returns \<open>js_error + 'a\<close>, with \<open>Inl\<close>
  for the exception. The message is all the model keeps of an error object.
\<close>

datatype js_error = Thrown string

text \<open>
  An entry of a \<^verbatim>\<open>FormData\<close> is a string or a file (\<^verbatim>\<open>FormDataEntryValue\<close>); a
  property that is not there reads as \<^verbatim>\<open>undefined\<close>, which is \<open>None\<close> here.
\<close>

datatype entry_value = Str string | File string

type_synonym form_data = "(string \<times> entry_value) list"

text \<open>
  \<^verbatim>\<open>Object.fromEntries\<close> keeps, for a key that occurs more than once, the value of its
  last entry; \<^verbatim>\<open>FormData.get\<close> returns the value of the first entry with the key, or
  \<^verbatim>\<open>null\<close>.
\<close>

definition fromEntries :: "(string \<times> 'v) list \<Rightarrow> string \<Rightarrow> 'v option" where
  "fromEntries es = map_of (rev es)"

definition form_get :: "form_data \<Rightarrow> string \<Rightarrow> entry_value option" where
  "form_get form k = map_of form k"

section \<open>The pitch creation action (lib/action.ts)\<close>

datatype status = SUCCESS | ERROR | INITIAL

record session =
  session_id :: string

record slugify_options =
  lower :: bool
  strict :: bool

text \<open>
  The document handed to \<^verbatim>\<open>writeClient.create\<close>. The fields \<^verbatim>\<open>_type\<close> of the source
  are \<open>doc_type\<close>, \<open>slug_type\<close> and \<open>ref_type\<close>, and \<^verbatim>\<open>_ref\<close> is \<open>ref\<close>. The four form
  fields are stored as they were read from the form, so they are entry values that may
  be undefined.
\<close>

record slug_object =
  slug_type :: string
  current :: string

record reference =
  ref_type :: string
  ref :: string

record startup =
  doc_type :: string
  title :: "entry_value option"
  description :: "entry_value option"
  category :: "entry_value option"
  image :: "entry_value option"
  slug :: slug_object
  author :: reference
  pitch :: string

text \<open>
  What the CMS returns for a creation request: a document of the same shape with the
  identifier it assigned (\<^verbatim>\<open>_id\<close> in the source).
\<close>

record created = startup +
  doc_id :: string

text \<open>
  The result of a server action, \<^verbatim>\<open>{ ...payload, error, status }\<close>. The spread of the
  created document is the field \<open>payload\<close>; an error result spreads nothing.
\<close>

record response =
  payload :: "created option"
  error :: string
  status :: status

text \<open>
  Modelled from the spec: \<^verbatim>\<open>parseServerActionResponse\<close> of lib/utils is not among the
  sources. The spec describes it as the normalizer that wraps an action result into
  the uniform shape (payload, status tag, error message); on a value that already has
  this shape it changes nothing.
\<close>

definition parseServerActionResponse :: "response \<Rightarrow> response" where
  "parseServerActionResponse r = r"

text \<open>
  The collaborators of the action, as the values they answer with:
  \<^item> \<open>auth\<close>: what \<^verbatim>\<open>await auth()\<close> gives, a session or nothing, or an exception;
  \<^item> \<open>slugify\<close>: the slugify library, called on whatever the title property holds
    (the cast \<^verbatim>\<open>title as string\<close> does nothing at run time), which may throw;
  \<^item> \<open>create\<close>: \<^verbatim>\<open>writeClient.create\<close>, which returns the created document or rejects;
  \<^item> \<open>stringify\<close>: \<^verbatim>\<open>JSON.stringify\<close> on a caught error.
\<close>

record action_env =
  auth :: "js_error + session option"
  slugify :: "entry_value option \<Rightarrow> slugify_options \<Rightarrow> js_error + string"
  create :: "startup \<Rightarrow> js_error + created"
  stringify :: "js_error \<Rightarrow> string"

text \<open>
  What the action does to the outside world, in order: a creation request issued to the
  CMS, and a line written with \<^verbatim>\<open>console.log\<close>.
\<close>

datatype action_effect = CmsCreate startup | ConsoleLog js_error

text \<open>
  Lines 39 to 41: the properties of the form without the entries named \<open>pitch\<close>, of
  which the action reads \<open>title\<close>, \<open>description\<close>, \<open>category\<close> and \<open>link\<close>.
\<close>

definition form_props :: "form_data \<Rightarrow> string \<Rightarrow> entry_value option" where
  "form_props form = fromEntries (filter (\<lambda>(key, _). key \<noteq> ''pitch'') form)"

text \<open>Lines 48 to 62 and the spread of line 65: the document that is written.\<close>

definition build_startup ::
  "(string \<Rightarrow> entry_value option) \<Rightarrow> string \<Rightarrow> session \<Rightarrow> string \<Rightarrow> startup" where
  "build_startup props slug_text sess pitch_text =
     \<lparr> doc_type = ''startup'',
       title = props ''title'',
       description = props ''description'',
       category = props ''category'',
       image = props ''link'',
       slug = \<lparr> slug_type = slug_text, current = slug_text \<rparr>,
       author = \<lparr> ref_type = ''reference'', ref = session_id sess \<rparr>,
       pitch = pitch_text \<rparr>"

text \<open>
  \<open>createPitch\<close> returns the value the caller receives (\<open>Inl\<close>: the exception that
  reaches the caller) and the effects it had. The first argument is the unused state.
  The call of slugify (line 44) stands before the \<^verbatim>\<open>try\<close> block (lines 46 to 82), so
  only the construction of the document and the write are under the \<^verbatim>\<open>catch\<close>.
\<close>

definition createPitch ::
  "action_env \<Rightarrow> 'st \<Rightarrow> form_data \<Rightarrow> string
     \<Rightarrow> (js_error + response) \<times> action_effect list" where
  "createPitch env state form pitch_text =
     (case auth env of
        Inl e \<Rightarrow> (Inl e, [])
      | Inr None \<Rightarrow>
          (Inr (parseServerActionResponse
                  \<lparr> payload = None, error = ''Not signed in'', status = ERROR \<rparr>), [])
      | Inr (Some sess) \<Rightarrow>
          (let props = form_props form
           in case slugify env (props ''title'') \<lparr> lower = True, strict = True \<rparr> of
                Inl e \<Rightarrow> (Inl e, [])
              | Inr slug_text \<Rightarrow>
                  (let doc = build_startup props slug_text sess pitch_text
                   in case create env doc of
                        Inr result \<Rightarrow>
                          (Inr (parseServerActionResponse
                                  \<lparr> payload = Some result, error = '''', status = SUCCESS \<rparr>),
                           [CmsCreate doc])
                      | Inl err \<Rightarrow>
                          (Inr (parseServerActionResponse
                                  \<lparr> payload = None, error = stringify env err,
                                    status = ERROR \<rparr>),
                           [CmsCreate doc, ConsoleLog err]))))"

text \<open>The creation requests among the effects.\<close>

fun cms_writes :: "action_effect list \<Rightarrow> startup list" where
  "cms_writes [] = []"
| "cms_writes (CmsCreate d # es) = d # cms_writes es"
| "cms_writes (ConsoleLog _ # es) = cms_writes es"

text \<open>The submitted title: the property that line 44 hands to slugify.\<close>

definition submitted_title :: "form_data \<Rightarrow> entry_value option" where
  "submitted_title form = form_props form ''title''"

text \<open>
  The CMS answers a creation request with the document it was given (and an
  identifier): the contract of the write collaborator.
\<close>

definition echoes :: "startup \<Rightarrow> created \<Rightarrow> bool" where
  "echoes d r = (startup.truncate r = d)"

subsection \<open>Stand-ins for the collaborators, for concrete runs\<close>

text \<open>
  A small slugify for concrete runs: it throws on a value that is not a string, as the
  library does, lowercases ASCII letters, keeps digits, writes a hyphen for a space
  and drops every other character. It is used at titles where this is what the library
  computes.
\<close>

definition slug_char :: "char \<Rightarrow> string" where
  "slug_char c =
     (case map_of (zip ''ABCDEFGHIJKLMNOPQRSTUVWXYZ'' ''abcdefghijklmnopqrstuvwxyz'') c of
        Some l \<Rightarrow> [l]
      | None \<Rightarrow>
          (if c \<in> set ''abcdefghijklmnopqrstuvwxyz0123456789'' then [c]
           else if c = CHR '' '' then ''-'' else []))"

definition slugify_ascii :: "entry_value option \<Rightarrow> slugify_options \<Rightarrow> js_error + string" where
  "slugify_ascii v opts =
     (case v of
        Some (Str s) \<Rightarrow> Inr (concat (map slug_char s))
      | _ \<Rightarrow> Inl (Thrown ''slugify: string argument expected''))"

text \<open>A CMS that accepts every document and names it \<open>doc-1\<close>.\<close>

definition accepting_cms :: "startup \<Rightarrow> js_error + created" where
  "accepting_cms d = Inr (startup.extend d (created.fields ''doc-1''))"

text \<open>A CMS that rejects every document.\<close>

definition rejecting_cms :: "startup \<Rightarrow> js_error + created" where
  "rejecting_cms d = Inl (Thrown ''Insufficient permissions'')"

definition signed_in_env :: action_env where
  "signed_in_env =
     \<lparr> auth = Inr (Some \<lparr> session_id = ''user-7'' \<rparr>),
       slugify = slugify_ascii,
       create = accepting_cms,
       stringify = (\<lambda>e. ''{}'') \<rparr>"

definition rejected_env :: action_env where
  "rejected_env = signed_in_env \<lparr> create := rejecting_cms \<rparr>"

definition signed_out_env :: action_env where
  "signed_out_env = signed_in_env \<lparr> auth := Inr None \<rparr>"

definition pitch_form :: form_data where
  "pitch_form =
     [(''title'', Str ''My Startup''),
      (''description'', Str ''A short description''),
      (''category'', Str ''Tech''),
      (''link'', Str ''https://example.com/a.png'')]"

text \<open>
  The document that \<open>pitch_form\<close>, the session \<open>user-7\<close> and the pitch
  \<open>We build things\<close> give, written out, and the document the accepting CMS returns
  for it.
\<close>

definition startup_example :: startup where
  "startup_example =
     \<lparr> doc_type = ''startup'',
       title = Some (Str ''My Startup''),
       description = Some (Str ''A short description''),
       category = Some (Str ''Tech''),
       image = Some (Str ''https://example.com/a.png''),
       slug = \<lparr> slug_type = ''my-startup'', current = ''my-startup'' \<rparr>,
       author = \<lparr> ref_type = ''reference'', ref = ''user-7'' \<rparr>,
       pitch = ''We build things'' \<rparr>"

definition created_example :: created where
  "created_example = startup.extend startup_example (created.fields ''doc-1'')"

section \<open>The submission form (the client component of the pitch form)\<close>

text \<open>
  The values the form handler validates: the four form fields as \<^verbatim>\<open>formData.get\<close>
  returns them, and the pitch text of the editor.
\<close>

record form_values =
  v_title :: "entry_value option"
  v_description :: "entry_value option"
  v_category :: "entry_value option"
  v_link :: "entry_value option"
  v_pitch :: string

definition required_string :: "entry_value option \<Rightarrow> bool" where
  "required_string v = (case v of Some (Str s) \<Rightarrow> s \<noteq> [] | _ \<Rightarrow> False)"

text \<open>
  Modelled from the spec: \<^verbatim>\<open>formSchema\<close> of lib/validation is not among the sources.
  The spec requires every field to be a non-empty string, the link to be a
  syntactically valid URL and the pitch to reach a minimum length; what a valid URL is
  and the minimum are parameters. The result lists the fields that fail, in the order
  of the schema; \<^verbatim>\<open>parseAsync\<close> throws exactly when the list is not empty.
\<close>

definition formSchema :: "(string \<Rightarrow> bool) \<Rightarrow> nat \<Rightarrow> form_values \<Rightarrow> string list" where
  "formSchema is_url min_pitch v =
     (if required_string (v_title v) then [] else [''title'']) @
     (if required_string (v_description v) then [] else [''description'']) @
     (if required_string (v_category v) then [] else [''category'']) @
     (if (case v_link v of Some (Str s) \<Rightarrow> s \<noteq> [] \<and> is_url s | _ \<Rightarrow> False)
      then [] else [''link'']) @
     (if v_pitch v \<noteq> [] \<and> min_pitch \<le> length (v_pitch v) then [] else [''pitch''])"

record form_env =
  valid_url :: "string \<Rightarrow> bool"
  pitch_min :: nat
  server :: action_env

datatype toast_variant = Default | Destructive

datatype client_effect =
    SetErrors "string list"
  | Toast string string toast_variant
  | RouterPush string
  | ServerAction action_effect

text \<open>Lines 52 to 58: the values handed to the schema.\<close>

definition submitted_values :: "form_data \<Rightarrow> string \<Rightarrow> form_values" where
  "submitted_values formData pitch_text =
     \<lparr> v_title = form_get formData ''title'',
       v_description = form_get formData ''description'',
       v_category = form_get formData ''category'',
       v_link = form_get formData ''link'',
       v_pitch = pitch_text \<rparr>"

text \<open>
  \<open>handleFormSubmit\<close>: validation first; \<open>createPitch\<close> is called only when the
  schema accepts the values. Every exception, the one of the schema and any that
  \<open>createPitch\<close> lets through, ends in the \<^verbatim>\<open>catch\<close> block, so the handler always
  returns a result.
\<close>

definition handleFormSubmit ::
  "form_env \<Rightarrow> response \<Rightarrow> form_data \<Rightarrow> string \<Rightarrow> response \<times> client_effect list" where
  "handleFormSubmit env prevState formData pitch_text =
     (let formValues = submitted_values formData pitch_text;
          fieldErrors = formSchema (valid_url env) (pitch_min env) formValues
      in if fieldErrors \<noteq> [] then
           (prevState \<lparr> error := ''Validation failed'', status := ERROR \<rparr>,
            [SetErrors fieldErrors,
             Toast ''Error'' ''Please check your inputs and try again'' Destructive])
         else
           (case createPitch (server env) prevState formData pitch_text of
              (Inl e, effs) \<Rightarrow>
                (prevState \<lparr> error := ''An unexpected error has occurred'', status := ERROR \<rparr>,
                 map ServerAction effs @
                 [Toast ''Error'' ''An unexpected error has occurred'' Destructive])
            | (Inr result, effs) \<Rightarrow>
                (result,
                 map ServerAction effs @
                 (if status result = SUCCESS then
                    [Toast ''Success'' ''Your startup pitch has been created successfully'' Default,
                     RouterPush (''/startup/'' @
                       (case payload result of Some r \<Rightarrow> doc_id r | None \<Rightarrow> ''undefined''))]
                  else []))))"

text \<open>The creation requests that reached the CMS through the handler.\<close>

fun server_writes :: "client_effect list \<Rightarrow> startup list" where
  "server_writes [] = []"
| "server_writes (ServerAction (CmsCreate d) # es) = d # server_writes es"
| "server_writes (_ # es) = server_writes es"

text \<open>A form whose title is the empty string; every other field is well formed.\<close>

definition empty_title_form :: form_data where
  "empty_title_form =
     [(''title'', Str ''''),
      (''description'', Str ''A short description''),
      (''category'', Str ''Tech''),
      (''link'', Str ''https://example.com/a.png'')]"

text \<open>A form with no title entry at all.\<close>

definition no_title_form :: form_data where
  "no_title_form =
     [(''description'', Str ''A short description''),
      (''category'', Str ''Tech''),
      (''link'', Str ''https://example.com/a.png'')]"

definition form_env_example :: form_env where
  "form_env_example = \<lparr> valid_url = (\<lambda>s. True), pitch_min = 10, server = signed_in_env \<rparr>"

definition initial_state :: response where
  "initial_state = \<lparr> payload = None, error = '''', status = INITIAL \<rparr>"

section \<open>Rendered markup\<close>

text \<open>
  What the pages read from the CMS. A startup as the read queries return it: the
  pitch body and the author may be missing, and the view count is \<^verbatim>\<open>null\<close> (\<open>None\<close>)
  until a first write sets it.
\<close>

record author_info =
  a_id :: string
  a_name :: string
  a_username :: string
  a_image :: string

record post =
  p_id :: string
  p_createdAt :: string
  p_title :: string
  p_description :: string
  p_category :: string
  p_image :: string
  p_pitch :: "string option"
  p_author :: "author_info option"
  p_views :: "int option"

text \<open>
  A JSX tree: text, an element or a mounted component (its tag, its string attributes,
  its children), a fragment, a \<^verbatim>\<open>Suspense\<close> boundary (fallback, child) and a
  \<^verbatim>\<open>StartupCard\<close> with the post it shows. A child that is \<^verbatim>\<open>false\<close> or
  \<^verbatim>\<open>undefined\<close> renders nothing and is left out of the list of children; the React keys
  are left out as well.
\<close>

datatype jsx =
    Text string
  | Elem string "(string \<times> string) list" "jsx list"
  | Fragment "jsx list"
  | Suspense jsx jsx
  | StartupCard post

fun text_content :: "jsx \<Rightarrow> string" where
  "text_content (Text s) = s"
| "text_content (Elem tag attrs children) = concat (map text_content children)"
| "text_content (Fragment children) = concat (map text_content children)"
| "text_content (Suspense fallback child) = text_content child"
| "text_content (StartupCard p) = []"

text \<open>The subtrees of a tree, the tree itself first.\<close>

fun subtrees :: "jsx \<Rightarrow> jsx list" where
  "subtrees (Text s) = [Text s]"
| "subtrees (Elem tag attrs children) =
     Elem tag attrs children # concat (map subtrees children)"
| "subtrees (Fragment children) = Fragment children # concat (map subtrees children)"
| "subtrees (Suspense fallback child) = Suspense fallback child # subtrees child"
| "subtrees (StartupCard p) = [StartupCard p]"

text \<open>
  The decimal digits of a natural number.
\<close>

fun decimal :: "nat \<Rightarrow> string" where
  "decimal n =
     (if n < 10 then [''0123456789'' ! n]
      else decimal (n div 10) @ [''0123456789'' ! (n mod 10)])"

declare decimal.simps [simp del]

text \<open>Reading the digits back, to state that \<open>decimal\<close> prints the number it is given.\<close>

definition digit_value :: "char \<Rightarrow> nat" where
  "digit_value c = length (takeWhile (\<lambda>d. d \<noteq> c) ''0123456789'')"

definition decimal_value :: "string \<Rightarrow> nat" where
  "decimal_value s = foldl (\<lambda>a c. 10 * a + digit_value c) 0 s"

subsection \<open>JavaScript numbers that hold an integer\<close>

text \<open>
  A view count is a JavaScript number, that is a double, that holds an integer; the
  model keeps the integer. Every integer of magnitude up to \<open>2 ^ 53\<close> is a double;
  above, the doubles are the multiples of their spacing \<open>q\<close>, the smallest power of
  two with \<open>m div q < 2 ^ 53\<close>. An integer that is not a double is rounded to the
  nearest multiple of the spacing, and a tie goes to the multiple with the even
  quotient (round to nearest, ties to even). Magnitudes from \<open>2 ^ 1024\<close> on, which
  round to \<^verbatim>\<open>Infinity\<close>, are beyond what a count read from JSON can hold and are
  outside the model.
\<close>

definition nearest_multiple :: "nat \<Rightarrow> nat \<Rightarrow> nat" where
  "nearest_multiple q m =
     (let lo = (m div q) * q; r = m - lo
      in if 2 * r < q then lo
         else if q < 2 * r then lo + q
         else if even (m div q) then lo else lo + q)"

function round_spaced :: "nat \<Rightarrow> nat \<Rightarrow> nat" where
  "round_spaced q m =
     (if q = 0 \<or> m div q < 2 ^ 53 then nearest_multiple q m else round_spaced (2 * q) m)"
  by pat_completeness auto
termination
proof (relation "measure (\<lambda>(q, m). m div q)")
  show "wf (measure (\<lambda>(q, m). m div q))"
    by simp
next
  fix q m :: nat
  assume "\<not> (q = 0 \<or> m div q < 2 ^ 53)"
  then have "0 < m div q"
    by simp
  moreover have "m div (2 * q) = (m div q) div 2"
    by (simp add: div_mult2_eq mult.commute)
  ultimately have "m div (2 * q) < m div q"
    by simp
  then show "((2 * q, m), (q, m)) \<in> measure (\<lambda>(q, m). m div q)"
    by simp
qed

declare round_spaced.simps [simp del]

definition round_magnitude :: "nat \<Rightarrow> nat" where
  "round_magnitude m = round_spaced 1 m"

definition round_double :: "int \<Rightarrow> int" where
  "round_double x = sgn x * int (round_magnitude (nat \<bar>x\<bar>))"

text \<open>
  \<^verbatim>\<open>a + b\<close> on two such numbers: the exact sum, rounded.
\<close>

definition js_add :: "int \<Rightarrow> int \<Rightarrow> int" where
  "js_add a b = round_double (a + b)"

text \<open>
  A number as JSX prints it, which is \<^verbatim>\<open>Number::toString\<close> of ECMAScript: the digits
  \<open>s\<close> and the power \<open>p\<close> with the fewest digits such that \<open>s * 10 ^ p\<close> rounds to
  the number; among those the value closest to the number, and of two equally close
  the even \<open>s\<close>. The search goes down from the largest power of ten; at every power only the
  multiple below the number and the one above can round to it. For a double \<open>x\<close> the
  search ends at the latest with \<open>(x, 0)\<close>.
\<close>

fun shortest_digits :: "nat \<Rightarrow> nat \<Rightarrow> nat \<times> nat" where
  "shortest_digits x 0 = (x, 0)"
| "shortest_digits x (Suc p) =
     (let q = 10 ^ Suc p;
          lo = x div q;
          hi = lo + 1;
          ok_lo = (0 < lo \<and> round_magnitude (lo * q) = x);
          ok_hi = (round_magnitude (hi * q) = x)
      in if ok_lo \<and> ok_hi then
           (if x - lo * q < hi * q - x then (lo, Suc p)
            else if hi * q - x < x - lo * q then (hi, Suc p)
            else if even lo then (lo, Suc p) else (hi, Suc p))
         else if ok_lo then (lo, Suc p)
         else if ok_hi then (hi, Suc p)
         else shortest_digits x p)"

text \<open>
  The text: below \<open>2 ^ 53\<close> every integer is a double and so are all the shorter
  candidates, so the digits are those of the integer itself. From there on the
  shortest digits are followed by \<open>p\<close> zeros while the number has at most 21
  digits, and written with an exponent beyond (\<^verbatim>\<open>1e+21\<close>).
\<close>

definition unsigned_text :: "nat \<Rightarrow> string" where
  "unsigned_text x =
     (if x < 2 ^ 53 then decimal x
      else (case shortest_digits x (length (decimal x)) of
              (s, p) \<Rightarrow>
                (let ds = decimal s; n = length ds + p
                 in if n \<le> 21 then ds @ replicate p (CHR ''0'')
                    else hd ds # (if length ds = 1 then [] else ''.'' @ tl ds) @
                         ''e+'' @ decimal (n - 1))))"

definition number_text :: "int \<Rightarrow> string" where
  "number_text n = (if n < 0 then ''-'' @ unsigned_text (nat (- n)) else unsigned_text (nat n))"

text \<open>
  \<^verbatim>\<open>null\<close> in arithmetic and in a comparison with a number counts as 0.
\<close>

definition to_number :: "int option \<Rightarrow> int" where
  "to_number v = (case v of None \<Rightarrow> 0 | Some n \<Rightarrow> n)"

section \<open>The view counter widget (the View component)\<close>

text \<open>The row of \<^verbatim>\<open>STARTUP_VIEWS_QUERY\<close>; the query returns \<^verbatim>\<open>null\<close> for an unknown id.\<close>

record startup_views =
  views :: "int option"

record view_env =
  fetch_views :: "string \<Rightarrow> js_error + startup_views option"

text \<open>
  The write of the widget, \<^verbatim>\<open>writeClient.patch(id).set({ views: n }).commit()\<close>.
\<close>

record patch =
  patch_id :: string
  set_views :: int

text \<open>
  What a server component does while it renders: a write it awaits on the spot, or a
  callback it hands to \<^verbatim>\<open>after\<close> of next/server. The only callbacks of this
  repository are writes.
\<close>

datatype render_effect = WriteNow patch | After patch

text \<open>Lines 38 to 48: the paragraph with the count.\<close>

definition view_text :: "int option \<Rightarrow> jsx" where
  "view_text totalViews =
     Elem ''p'' [(''className'', ''view-text'')]
       [Elem ''span'' [(''className'', ''font-black'')]
          [if to_number totalViews < 1 then Elem ''span'' [] [Text ''No views'']
           else Elem ''span'' []
                  [Text (number_text (to_number totalViews)), Text '' '',
                   Text (if totalViews = Some 1 then ''view'' else ''views'')]]]"

definition view_markup :: "int option \<Rightarrow> jsx" where
  "view_markup totalViews =
     Elem ''div'' [(''className'', ''view-container'')]
       [Elem ''div'' [(''className'', ''absolute -top-2 -right-2'')] [Elem ''Ping'' [] []],
        view_text totalViews]"

text \<open>
  The row holds the count as the CMS stores it, an integer or \<^verbatim>\<open>null\<close>. The read
  hands it to the component as a JavaScript number: the double nearest to it, which
  is the count itself up to \<open>2 ^ 53\<close>.
\<close>

definition read_number :: "int option \<Rightarrow> int option" where
  "read_number v = map_option round_double v"

text \<open>
  \<open>View\<close>: the read, then the callback handed to \<^verbatim>\<open>after\<close>, then the markup.
  Destructuring the \<^verbatim>\<open>null\<close> of an unknown id throws a TypeError. The value
  written is \<^verbatim>\<open>totalViews + 1\<close>, an addition of JavaScript numbers.
\<close>

definition View :: "view_env \<Rightarrow> string \<Rightarrow> (js_error + jsx) \<times> render_effect list" where
  "View env ident =
     (case fetch_views env ident of
        Inl e \<Rightarrow> (Inl e, [])
      | Inr None \<Rightarrow> (Inl (Thrown ''TypeError: cannot destructure property views of null''), [])
      | Inr (Some row) \<Rightarrow>
          (let totalViews = read_number (views row)
           in (Inr (view_markup totalViews),
               [After \<lparr> patch_id = ident, set_views = js_add (to_number totalViews) 1 \<rparr>])))"

subsection \<open>The request around a render\<close>

text \<open>
  The contract of \<^verbatim>\<open>after\<close> in next/server, which is not code of this repository: a
  write awaited during the render is committed before the response exists; the
  response is then produced and flushed; the callbacks handed to \<^verbatim>\<open>after\<close> run once
  the response is finished, also when the render threw. \<open>commit\<close> is the outcome of
  a write at the CMS: \<open>None\<close> when it went through, the error otherwise.
\<close>

datatype event = Committed patch "js_error option" | Responded "js_error + jsx"

fun awaited :: "render_effect list \<Rightarrow> patch list" where
  "awaited [] = []"
| "awaited (WriteNow p # es) = p # awaited es"
| "awaited (After p # es) = awaited es"

fun deferred :: "render_effect list \<Rightarrow> patch list" where
  "deferred [] = []"
| "deferred (WriteNow p # es) = deferred es"
| "deferred (After p # es) = p # deferred es"

definition serve ::
  "(patch \<Rightarrow> js_error option) \<Rightarrow> (js_error + jsx) \<times> render_effect list \<Rightarrow> event list" where
  "serve commit r =
     map (\<lambda>p. Committed p (commit p)) (awaited (snd r)) @
     [Responded (fst r)] @
     map (\<lambda>p. Committed p (commit p)) (deferred (snd r))"

text \<open>A store for concrete runs: the one entity \<open>doc-1\<close>, with the given count.\<close>

definition views_env_with :: "int option \<Rightarrow> view_env" where
  "views_env_with v =
     \<lparr> fetch_views = (\<lambda>i. if i = ''doc-1'' then Inr (Some \<lparr> views = v \<rparr>) else Inr None) \<rparr>"

section \<open>The detail page (app/(root)/startup/[id]/page.tsx)\<close>

text \<open>
  The row of \<^verbatim>\<open>PLAYLIST_BY_SLUG_QUERY\<close>: the posts of the playlist under \<^verbatim>\<open>select\<close>,
  which may be missing. The query returns \<^verbatim>\<open>null\<close> when no playlist has the slug.
\<close>

record playlist =
  select :: "post list option"

text \<open>
  The collaborators of the page: the two reads, the Markdown converter
  (\<^verbatim>\<open>md.render\<close> of markdown-it) and \<^verbatim>\<open>formatDate\<close> of lib/utils, which is not among
  the sources and is taken as a parameter. When both reads reject, \<^verbatim>\<open>Promise.all\<close>
  rejects with the error of the one that rejected first; \<open>second_rejects_first\<close> says
  which.
\<close>

record page_env =
  fetch_startup :: "string \<Rightarrow> js_error + post option"
  fetch_playlist :: "string \<Rightarrow> js_error + playlist option"
  second_rejects_first :: bool
  md_render :: "string \<Rightarrow> string"
  formatDate :: "string \<Rightarrow> string"

definition promise_all2 :: "bool \<Rightarrow> js_error + 'a \<Rightarrow> js_error + 'b \<Rightarrow> js_error + 'a \<times> 'b" where
  "promise_all2 second_first a b =
     (case a of
        Inr x \<Rightarrow> (case b of Inr y \<Rightarrow> Inr (x, y) | Inl e2 \<Rightarrow> Inl e2)
      | Inl e1 \<Rightarrow> (case b of Inr y \<Rightarrow> Inl e1 | Inl e2 \<Rightarrow> Inl (if second_first then e2 else e1)))"

text \<open>
  What the page function ends with: the not-found outcome of \<^verbatim>\<open>notFound()\<close>, which
  carries no markup, or the rendered tree.
\<close>

datatype page_result = NotFound | Rendered jsx

text \<open>Line 58, \<^verbatim>\<open>md.render(post?.pitch || "")\<close>: a missing body is converted as the empty string.\<close>

definition parsedContent :: "(string \<Rightarrow> string) \<Rightarrow> post \<Rightarrow> string" where
  "parsedContent md p = md (case p_pitch p of None \<Rightarrow> '''' | Some body \<Rightarrow> body)"

text \<open>Lines 101 to 108: the article with the converted HTML, or the placeholder.\<close>

definition pitch_details :: "(string \<Rightarrow> string) \<Rightarrow> post \<Rightarrow> jsx" where
  "pitch_details md p =
     (if parsedContent md p \<noteq> ''''
      then Elem ''article''
             [(''className'', ''prose max-w-4xl font-work-sans break-all''),
              (''dangerouslySetInnerHTML'', parsedContent md p)] []
      else Elem ''p'' [(''className'', ''no-result'')] [Text ''No details provided''])"

definition author_link :: "post \<Rightarrow> jsx" where
  "author_link p =
     Elem ''Link''
       [(''href'', ''/user/'' @ (case p_author p of None \<Rightarrow> ''undefined'' | Some a \<Rightarrow> a_id a))]
       [Elem ''Image''
          ((case p_author p of None \<Rightarrow> [] | Some a \<Rightarrow> [(''src'', a_image a)]) @
           [(''alt'', ''avatar''), (''width'', ''64''), (''height'', ''64''),
            (''className'', ''rounded-full drop-shadow-lg'')]) [],
        Elem ''div'' []
          [Elem ''p'' [(''className'', ''text-20-medium'')]
             (case p_author p of None \<Rightarrow> [] | Some a \<Rightarrow> [Text (a_name a)]),
           Elem ''p'' [(''className'', ''text-16-medium'')]
             (Text ''@'' # (case p_author p of None \<Rightarrow> [] | Some a \<Rightarrow> [Text (a_username a)]))]]"

text \<open>Lines 115 to 124: the editor picks, only when the list has an element.\<close>

definition editor_picks :: "post list option \<Rightarrow> jsx list" where
  "editor_picks editorPosts =
     (case editorPosts of
        Some (x # xs) \<Rightarrow>
          [Elem ''div'' [(''className'', ''max-w-4xl mx-auto'')]
             [Elem ''p'' [(''className'', ''text-30-semibold'')] [Text ''Editor Picks''],
              Elem ''ul'' [(''className'', ''mt-7 card_grid-sm'')] (map StartupCard (x # xs))]]
      | _ \<Rightarrow> [])"

definition page_markup :: "page_env \<Rightarrow> string \<Rightarrow> post \<Rightarrow> post list option \<Rightarrow> jsx" where
  "page_markup env ident p editorPosts =
     Fragment
       [Elem ''section'' [(''className'', ''pink_container !min-h-[230px]'')]
          [Elem ''p'' [(''className'', ''tag'')] [Text (formatDate env (p_createdAt p))],
           Elem ''h1'' [(''className'', ''heading'')] [Text (p_title p)],
           Elem ''p'' [(''className'', ''sub-heading !max-w-5xl'')] [Text (p_description p)]],
        Elem ''section'' [(''className'', ''section_container'')]
          ([Elem ''img''
              [(''src'', p_image p), (''alt'', ''thumbnail''),
               (''className'', ''w-full h-auto rounded-xl'')] [],
            Elem ''div'' [(''className'', ''space-y-5 mt-10 max-w-4xl mx-auto'')]
              [Elem ''div'' [(''className'', ''flex-between gap-5'')]
                 [author_link p,
                  Elem ''p'' [(''className'', ''category-tag'')] [Text (p_category p)]],
               Elem ''h3'' [(''className'', ''text-30-bold'')] [Text ''Pitch Details''],
               pitch_details (md_render env) p],
            Elem ''hr'' [(''className'', ''divider'')] []] @
           editor_picks editorPosts),
        Suspense (Elem ''Skeleton'' [(''className'', ''view_skeleton'')] [])
                 (Elem ''View'' [(''id'', ident)] [])]"

text \<open>
  \<open>Page\<close>: both reads are issued and joined by \<^verbatim>\<open>Promise.all\<close>; the array pattern
  then destructures the playlist, which throws a TypeError on \<^verbatim>\<open>null\<close>; only then
  comes the test of the post.
\<close>

definition Page :: "page_env \<Rightarrow> string \<Rightarrow> js_error + page_result" where
  "Page env ident =
     (case promise_all2 (second_rejects_first env)
             (fetch_startup env ident) (fetch_playlist env ''editor-picks'') of
        Inl e \<Rightarrow> Inl e
      | Inr (found, None) \<Rightarrow>
          Inl (Thrown ''TypeError: cannot destructure property select of null'')
      | Inr (None, Some pl) \<Rightarrow> Inr NotFound
      | Inr (Some p, Some pl) \<Rightarrow> Inr (Rendered (page_markup env ident p (select pl))))"

text \<open>
  A Markdown converter for concrete runs. On two kinds of body it returns what
  \<^verbatim>\<open>md.render\<close> of markdown-it returns: a body of spaces and line feeds (the empty
  body among them) renders to the empty string, and a plain line, which is ASCII
  letters and spaces between a first and a last letter, renders as one paragraph
  followed by a line feed. It is used at such bodies only; on any other body it
  returns the empty string, which is not what markdown-it returns.
\<close>

definition plain_line :: "string \<Rightarrow> bool" where
  "plain_line body =
     (body \<noteq> [] \<and>
      list_all (\<lambda>c. c = CHR '' '' \<or>
                     c \<in> set ''abcdefghijklmnopqrstuvwxyzABCDEFGHIJKLMNOPQRSTUVWXYZ'') body \<and>
      hd body \<noteq> CHR '' '' \<and> last body \<noteq> CHR '' '')"

definition md_paragraph :: "string \<Rightarrow> string" where
  "md_paragraph body =
     (if list_all (\<lambda>c. c = CHR '' '' \<or> c = CHR 0x0A) body then ''''
      else if plain_line body then ''<p>'' @ body @ ''</p>'' @ [CHR 0x0A]
      else '''')"

definition post_example :: post where
  "post_example =
     \<lparr> p_id = ''doc-1'', p_createdAt = ''2024-12-01T10:00:00Z'', p_title = ''My Startup'',
       p_description = ''A short description'', p_category = ''Tech'',
       p_image = ''https://example.com/a.png'', p_pitch = Some ''We build things'',
       p_author = Some \<lparr> a_id = ''user-7'', a_name = ''Ada'', a_username = ''ada'',
                          a_image = ''https://example.com/ada.png'' \<rparr>,
       p_views = Some 41 \<rparr>"

text \<open>
  A store with the one post \<open>doc-1\<close> and an editor-picks playlist that holds it.
\<close>

definition page_env_example :: page_env where
  "page_env_example =
     \<lparr> fetch_startup = (\<lambda>i. if i = ''doc-1'' then Inr (Some post_example) else Inr None),
       fetch_playlist = (\<lambda>s. if s = ''editor-picks''
                                then Inr (Some \<lparr> select = Some [post_example] \<rparr>) else Inr None),
       second_rejects_first = False,
       md_render = md_paragraph,
       formatDate = (\<lambda>d. take 10 d) \<rparr>"

text \<open>The same store when the pitch body of the post is three spaces.\<close>

definition blank_post :: post where
  "blank_post = post_example \<lparr> p_pitch := Some ''   '' \<rparr>"

definition page_env_blank_pitch :: page_env where
  "page_env_blank_pitch =
     page_env_example
       \<lparr> fetch_startup := (\<lambda>i. if i = ''doc-1'' then Inr (Some blank_post) else Inr None) \<rparr>"

text \<open>The same store when the post has no pitch body.\<close>

definition bare_post :: post where
  "bare_post = post_example \<lparr> p_pitch := None \<rparr>"

definition page_env_no_pitch :: page_env where
  "page_env_no_pitch =
     page_env_example
       \<lparr> fetch_startup := (\<lambda>i. if i = ''doc-1'' then Inr (Some bare_post) else Inr None) \<rparr>"

text \<open>The same store when the read of the playlist fails.\<close>

definition page_env_playlist_down :: page_env where
  "page_env_playlist_down =
     page_env_example \<lparr> fetch_playlist := (\<lambda>s. Inl (Thrown ''request failed'')) \<rparr>"

section \<open>The list page (app/(root)/page.tsx)\<close>

text \<open>The parameters of \<^verbatim>\<open>STARTUPS_QUERY\<close>; \<open>None\<close> is \<^verbatim>\<open>null\<close>.\<close>

record list_params =
  search :: "string option"

datatype fetch_call = SanityFetch string list_params

text \<open>
  \<^verbatim>\<open>sanityFetch\<close>, by the name of the query and its parameters; \<^verbatim>\<open>data\<close> may be
  \<^verbatim>\<open>null\<close>.
\<close>

record home_env =
  sanityFetch :: "string \<Rightarrow> list_params \<Rightarrow> js_error + post list option"

text \<open>Line 27, \<^verbatim>\<open>{ search: query || null }\<close>: the empty string is falsy.\<close>

definition home_params :: "string option \<Rightarrow> list_params" where
  "home_params query =
     \<lparr> search = (case query of None \<Rightarrow> None | Some q \<Rightarrow> if q = '''' then None else Some q) \<rparr>"

text \<open>Lines 64 to 74: the grid of cards, or the message.\<close>

definition card_grid :: "post list option \<Rightarrow> jsx" where
  "card_grid posts =
     Elem ''ul'' [(''className'', ''card_grid mt-7'')]
       (case posts of
          Some (x # xs) \<Rightarrow> map StartupCard (x # xs)
        | _ \<Rightarrow> [Elem ''p'' [(''className'', ''no-results'')] [Text ''No Results Found'']])"

definition home_markup :: "string option \<Rightarrow> post list option \<Rightarrow> jsx" where
  "home_markup query posts =
     Fragment
       [Elem ''section'' [(''className'', ''pink_container'')]
          [Elem ''h1'' [(''className'', ''heading'')]
             [Text ''Pitch Your Startup '', Elem ''br'' [] [], Text '' Connect with Entrepreneurs''],
           Elem ''p'' [(''className'', ''sub-heading !max-w-3xl'')]
             [Text ''Submit Ideas, Vote on Pitches, and get noticed in Virtual Competitions.''],
           Elem ''SearchForm'' (case query of None \<Rightarrow> [] | Some q \<Rightarrow> [(''query'', q)]) []],
        Elem ''section'' [(''className'', ''section_container'')]
          [Elem ''p'' [(''className'', ''text-30-semibold'')]
             [Text (case query of
                      None \<Rightarrow> ''All Startups''
                    | Some q \<Rightarrow> if q = '''' then ''All Startups''
                                else ''Search Results for '' @ q)],
           card_grid posts],
        Elem ''SanityLive'' [] []]"

text \<open>
  \<open>Home\<close> returns what it renders (or the exception of the read) and the read it issued.
\<close>

definition Home :: "home_env \<Rightarrow> string option \<Rightarrow> (js_error + jsx) \<times> fetch_call list" where
  "Home env query =
     (let params = home_params query
      in (case sanityFetch env ''STARTUPS_QUERY'' params of
            Inl e \<Rightarrow> Inl e
          | Inr posts \<Rightarrow> Inr (home_markup query posts),
          [SanityFetch ''STARTUPS_QUERY'' params]))"

text \<open>
  A store for concrete runs: the search \<open>tech\<close> finds one post, any other search
  finds none, and the unfiltered list is the one post.
\<close>

definition home_env_example :: home_env where
  "home_env_example =
     \<lparr> sanityFetch = (\<lambda>q ps. if search ps = None \<or> search ps = Some ''tech''
                              then Inr (Some [post_example]) else Inr (Some [])) \<rparr>"

section \<open>Properties of the pitch creation action\<close>

subsection \<open>The four ways through \<open>createPitch\<close>\<close>

lemma createPitch_signed_out:
  "auth env = Inr None \<Longrightarrow>
   createPitch env state form pitch_text =
     (Inr \<lparr> payload = None, error = ''Not signed in'', status = ERROR \<rparr>, [])"
  by (simp add: createPitch_def parseServerActionResponse_def)

lemma createPitch_slugify_throws:
  "auth env = Inr (Some sess) \<Longrightarrow>
   slugify env (submitted_title form) \<lparr> lower = True, strict = True \<rparr> = Inl e \<Longrightarrow>
   createPitch env state form pitch_text = (Inl e, [])"
  by (simp add: createPitch_def submitted_title_def)

lemma createPitch_accepted:
  assumes "auth env = Inr (Some sess)"
    and "slugify env (submitted_title form) \<lparr> lower = True, strict = True \<rparr> = Inr slug_text"
    and "create env (build_startup (form_props form) slug_text sess pitch_text) = Inr result"
  shows "createPitch env state form pitch_text =
     (Inr \<lparr> payload = Some result, error = '''', status = SUCCESS \<rparr>,
      [CmsCreate (build_startup (form_props form) slug_text sess pitch_text)])"
  using assms by (simp add: createPitch_def submitted_title_def parseServerActionResponse_def)

text \<open>
  An exception of the write (steps 4 and 5 of the spec) is caught: the caller gets a
  result with status \<open>ERROR\<close> and the serialized error, after one creation request.
\<close>

lemma createPitch_rejected:
  assumes "auth env = Inr (Some sess)"
    and "slugify env (submitted_title form) \<lparr> lower = True, strict = True \<rparr> = Inr slug_text"
    and "create env (build_startup (form_props form) slug_text sess pitch_text) = Inl err"
  shows "createPitch env state form pitch_text =
     (Inr \<lparr> payload = None, error = stringify env err, status = ERROR \<rparr>,
      [CmsCreate (build_startup (form_props form) slug_text sess pitch_text), ConsoleLog err])"
  using assms by (simp add: createPitch_def submitted_title_def parseServerActionResponse_def)

lemma echoes_slug_author: "echoes d r \<Longrightarrow> slug r = slug d \<and> author r = author d"
  by (auto simp: echoes_def startup.truncate_def)

lemma cms_writes_createPitch:
  "d \<in> set (cms_writes (snd (createPitch env state form pitch_text))) \<Longrightarrow>
   \<exists>sess slug_text. auth env = Inr (Some sess) \<and>
      slugify env (submitted_title form) \<lparr> lower = True, strict = True \<rparr> = Inr slug_text \<and>
      d = build_startup (form_props form) slug_text sess pitch_text"
  by (auto simp: createPitch_def submitted_title_def Let_def split: sum.splits option.splits)

subsection \<open>The stand-ins at the example form\<close>

lemma submitted_title_pitch_form: "submitted_title pitch_form = Some (Str ''My Startup'')"
  by (simp add: submitted_title_def form_props_def fromEntries_def pitch_form_def)

lemma slugify_ascii_my_startup:
  "slugify_ascii (Some (Str ''My Startup'')) opts = Inr ''my-startup''"
  by (simp add: slugify_ascii_def slug_char_def)

lemma build_startup_pitch_form:
  "build_startup (form_props pitch_form) ''my-startup'' \<lparr> session_id = ''user-7'' \<rparr>
     ''We build things'' = startup_example"
  by (simp add: build_startup_def form_props_def fromEntries_def pitch_form_def
      startup_example_def)

lemma echoes_created_example: "echoes startup_example created_example"
  by (simp add: echoes_def created_example_def startup.truncate_def startup.extend_def
      startup_example_def)

lemma createPitch_pitch_form:
  "createPitch signed_in_env initial_state pitch_form ''We build things'' =
     (Inr \<lparr> payload = Some created_example, error = '''', status = SUCCESS \<rparr>,
      [CmsCreate startup_example])"
proof -
  have a: "auth signed_in_env = Inr (Some \<lparr> session_id = ''user-7'' \<rparr>)"
    by (simp add: signed_in_env_def)
  have s: "slugify signed_in_env (submitted_title pitch_form) \<lparr> lower = True, strict = True \<rparr>
             = Inr ''my-startup''"
    by (simp add: signed_in_env_def submitted_title_pitch_form slugify_ascii_my_startup)
  have c: "create signed_in_env
             (build_startup (form_props pitch_form) ''my-startup''
                \<lparr> session_id = ''user-7'' \<rparr> ''We build things'') = Inr created_example"
    by (simp add: build_startup_pitch_form signed_in_env_def accepting_cms_def
        created_example_def)
  show ?thesis
    using createPitch_accepted [OF a s c] by (simp add: build_startup_pitch_form)
qed

lemma createPitch_rejected_example:
  "createPitch rejected_env initial_state pitch_form ''We build things'' =
     (Inr \<lparr> payload = None, error = ''{}'', status = ERROR \<rparr>,
      [CmsCreate startup_example, ConsoleLog (Thrown ''Insufficient permissions'')])"
proof -
  have a: "auth rejected_env = Inr (Some \<lparr> session_id = ''user-7'' \<rparr>)"
    by (simp add: rejected_env_def signed_in_env_def)
  have s: "slugify rejected_env (submitted_title pitch_form) \<lparr> lower = True, strict = True \<rparr>
             = Inr ''my-startup''"
    by (simp add: rejected_env_def signed_in_env_def submitted_title_pitch_form
        slugify_ascii_my_startup)
  have c: "create rejected_env
             (build_startup (form_props pitch_form) ''my-startup''
                \<lparr> session_id = ''user-7'' \<rparr> ''We build things'')
             = Inl (Thrown ''Insufficient permissions'')"
    by (simp add: rejected_env_def rejecting_cms_def)
  show ?thesis
    using createPitch_rejected [OF a s c]
    by (simp add: build_startup_pitch_form rejected_env_def signed_in_env_def)
qed

subsection \<open>The claims\<close>

text \<open>
  C1. With an active session, a slug that slugify returns for the submitted title
  under the options lowercase and strict, and a write that the CMS accepts by
  returning the created document: \<open>createPitch\<close> issues exactly that one write and
  returns the created document with status \<open>SUCCESS\<close> and an empty error; the
  \<open>slug.current\<close> of the returned document is the slug, and its author reference
  \<open>_ref\<close> is the id of the session.
\<close>

theorem createPitch_slug_and_author:
  assumes "auth env = Inr (Some sess)"
    and "slugify env (submitted_title form) \<lparr> lower = True, strict = True \<rparr> = Inr slug_text"
    and "create env (build_startup (form_props form) slug_text sess pitch_text) = Inr result"
    and "echoes (build_startup (form_props form) slug_text sess pitch_text) result"
  shows "createPitch env state form pitch_text =
           (Inr \<lparr> payload = Some result, error = '''', status = SUCCESS \<rparr>,
            [CmsCreate (build_startup (form_props form) slug_text sess pitch_text)])
       \<and> current (slug result) = slug_text
       \<and> ref (author result) = session_id sess"
proof -
  have "slug result = slug (build_startup (form_props form) slug_text sess pitch_text)"
    and "author result = author (build_startup (form_props form) slug_text sess pitch_text)"
    using echoes_slug_author [OF assms(4)] by simp_all
  then have "current (slug result) = slug_text" and "ref (author result) = session_id sess"
    by (simp_all add: build_startup_def)
  with createPitch_accepted [OF assms(1-3)] show ?thesis by simp
qed

theorem createPitch_slug_and_author_witness:
  "createPitch signed_in_env initial_state pitch_form ''We build things'' =
     (Inr \<lparr> payload = Some created_example, error = '''', status = SUCCESS \<rparr>,
      [CmsCreate startup_example])
   \<and> current (slug created_example) = ''my-startup''
   \<and> ref (author created_example) = ''user-7''"
proof -
  have a: "auth signed_in_env = Inr (Some \<lparr> session_id = ''user-7'' \<rparr>)"
    by (simp add: signed_in_env_def)
  have s: "slugify signed_in_env (submitted_title pitch_form) \<lparr> lower = True, strict = True \<rparr>
             = Inr ''my-startup''"
    by (simp add: signed_in_env_def submitted_title_pitch_form slugify_ascii_my_startup)
  have c: "create signed_in_env
             (build_startup (form_props pitch_form) ''my-startup''
                \<lparr> session_id = ''user-7'' \<rparr> ''We build things'') = Inr created_example"
    by (simp add: build_startup_pitch_form signed_in_env_def accepting_cms_def
        created_example_def)
  have e: "echoes
             (build_startup (form_props pitch_form) ''my-startup''
                \<lparr> session_id = ''user-7'' \<rparr> ''We build things'') created_example"
    by (simp add: build_startup_pitch_form echoes_created_example)
  show ?thesis
    using createPitch_slug_and_author [OF a s c e, of initial_state]
    by (simp add: build_startup_pitch_form)
qed

text \<open>
  C2. When the auth collaborator returns no session, \<open>createPitch\<close> returns the
  result with status \<open>ERROR\<close> and the message \<open>Not signed in\<close>, and it has no
  effect: no creation request is issued to the CMS.
\<close>

theorem createPitch_not_signed_in:
  "auth env = Inr None \<Longrightarrow>
   fst (createPitch env state form pitch_text) =
     Inr \<lparr> payload = None, error = ''Not signed in'', status = ERROR \<rparr>
   \<and> snd (createPitch env state form pitch_text) = []
   \<and> cms_writes (snd (createPitch env state form pitch_text)) = []"
  by (simp add: createPitch_signed_out)

theorem createPitch_not_signed_in_witness:
  "auth signed_out_env = Inr None
   \<and> fst (createPitch signed_out_env initial_state pitch_form ''We build things'') =
       Inr \<lparr> payload = None, error = ''Not signed in'', status = ERROR \<rparr>
   \<and> cms_writes (snd (createPitch signed_out_env initial_state pitch_form ''We build things'')) = []"
proof -
  have a: "auth signed_out_env = Inr None"
    by (simp add: signed_out_env_def)
  show ?thesis
    using a createPitch_not_signed_in [OF a, of initial_state pitch_form "''We build things''"]
    by simp
qed

text \<open>
  C3, at the input where the code leaves the claim. The form has no \<open>title\<close> entry
  and the session is active: slugify, called before the \<^verbatim>\<open>try\<close> block, throws, and
  the exception reaches the caller of \<open>createPitch\<close> instead of a result with status
  \<open>ERROR\<close>.
\<close>

theorem createPitch_slugify_exception_escapes:
  "createPitch signed_in_env initial_state no_title_form ''We build things'' =
     (Inl (Thrown ''slugify: string argument expected''), [])"
  by (simp add: createPitch_def signed_in_env_def form_props_def fromEntries_def
      no_title_form_def slugify_ascii_def)

text \<open>
  C4, at the input where the code leaves the claim. The title is the empty string,
  which the schema refuses, and the session is active: \<open>createPitch\<close>, called with
  this form, issues the creation request all the same, with the empty title and the
  empty slug.
\<close>

theorem createPitch_writes_invalid_submission:
  "formSchema (valid_url form_env_example) (pitch_min form_env_example)
     (submitted_values empty_title_form ''We build things'') = [''title'']
   \<and> cms_writes (snd (createPitch signed_in_env initial_state empty_title_form
        ''We build things'')) =
       [startup_example \<lparr> title := Some (Str ''''),
                          slug := \<lparr> slug_type = '''', current = '''' \<rparr> \<rparr>]"
  by (simp add: formSchema_def submitted_values_def form_get_def empty_title_form_def
      required_string_def form_env_example_def createPitch_def signed_in_env_def
      form_props_def fromEntries_def slugify_ascii_def accepting_cms_def build_startup_def
      startup_example_def Let_def)

text \<open>
  The gate of the client: when the schema refuses the values, the handler does not
  call \<open>createPitch\<close>, so no creation request reaches the CMS through it.
\<close>

lemma handleFormSubmit_validation_gate:
  "formSchema (valid_url env) (pitch_min env) (submitted_values formData pitch_text) \<noteq> [] \<Longrightarrow>
   fst (handleFormSubmit env prevState formData pitch_text) =
     prevState \<lparr> error := ''Validation failed'', status := ERROR \<rparr>
   \<and> server_writes (snd (handleFormSubmit env prevState formData pitch_text)) = []"
  by (simp add: handleFormSubmit_def Let_def)

text \<open>
  C10. Every document that \<open>createPitch\<close> hands to the CMS has, as the \<open>_type\<close> of
  its slug object, the slugified title itself, which is also its \<open>slug.current\<close>.
\<close>

theorem createPitch_slug_type_is_slug:
  "d \<in> set (cms_writes (snd (createPitch env state form pitch_text))) \<Longrightarrow>
   slugify env (submitted_title form) \<lparr> lower = True, strict = True \<rparr>
     = Inr (slug_type (slug d))
   \<and> slug_type (slug d) = current (slug d)"
  by (auto dest!: cms_writes_createPitch simp: build_startup_def)

theorem createPitch_slug_type_is_slug_witness:
  "cms_writes (snd (createPitch signed_in_env initial_state pitch_form ''We build things''))
     = [startup_example]
   \<and> slugify signed_in_env (submitted_title pitch_form) \<lparr> lower = True, strict = True \<rparr>
       = Inr (slug_type (slug startup_example))
   \<and> slug_type (slug startup_example) = ''my-startup''
   \<and> current (slug startup_example) = ''my-startup''"
proof -
  have w: "cms_writes (snd (createPitch signed_in_env initial_state pitch_form
             ''We build things'')) = [startup_example]"
    by (simp add: createPitch_pitch_form)
  then have m: "startup_example \<in> set (cms_writes (snd (createPitch signed_in_env
             initial_state pitch_form ''We build things'')))"
    by simp
  show ?thesis
    using w createPitch_slug_type_is_slug [OF m] by (simp add: startup_example_def)
qed

section \<open>Properties of the view counter widget\<close>

subsection \<open>Numbers\<close>

text \<open>\<open>decimal\<close> is the decimal notation: read back, the digits give the number.\<close>

lemma digit_value_nth: "k < 10 \<Longrightarrow> digit_value (''0123456789'' ! k) = k"
proof -
  assume "k < 10"
  then have "k = 0 \<or> k = 1 \<or> k = 2 \<or> k = 3 \<or> k = 4 \<or> k = 5 \<or> k = 6 \<or> k = 7
      \<or> k = 8 \<or> k = 9"
    by arith
  then show ?thesis
    by (elim disjE) (simp_all add: digit_value_def)
qed

lemma decimal_value_decimal: "decimal_value (decimal n) = n"
proof (induction n rule: decimal.induct)
  case (1 n)
  show ?case
  proof (cases "n < 10")
    case True
    then show ?thesis
      by (subst decimal.simps) (simp add: decimal_value_def digit_value_nth)
  next
    case False
    then have "decimal_value (decimal (n div 10)) = n div 10"
      using "1.IH" by simp
    with False show ?thesis
      by (subst decimal.simps) (simp add: decimal_value_def digit_value_nth)
  qed
qed

lemma decimal_examples: "decimal 0 = ''0''" "decimal 1 = ''1''" "decimal 12 = ''12''"
  "decimal 41 = ''41''" "decimal 2024 = ''2024''"
  by (simp_all add: decimal.simps)

lemma decimal_Suc_0: "decimal (Suc 0) = ''1''"
  by (simp add: decimal.simps)

text \<open>Integers of magnitude up to \<open>2 ^ 53\<close> are doubles: rounding leaves them.\<close>

lemma round_magnitude_below: "m < 2 ^ 53 \<Longrightarrow> round_magnitude m = m"
  by (simp add: round_magnitude_def round_spaced.simps nearest_multiple_def)

lemma round_magnitude_at: "round_magnitude (2 ^ 53) = 2 ^ 53"
  by (simp add: round_magnitude_def round_spaced.simps nearest_multiple_def)

lemma round_double_safe:
  assumes "\<bar>x\<bar> \<le> 2 ^ 53"
  shows "round_double x = x"
proof -
  have "nat \<bar>x\<bar> < 2 ^ 53 \<or> nat \<bar>x\<bar> = 2 ^ 53"
    using assms by (auto simp: nat_le_eq_zle le_less nat_eq_iff nat_less_iff)
  then have "round_magnitude (nat \<bar>x\<bar>) = nat \<bar>x\<bar>"
    using round_magnitude_below round_magnitude_at by auto
  then show ?thesis
    by (simp add: round_double_def sgn_if)
qed

lemma js_add_safe: "\<bar>n\<bar> < 2 ^ 53 \<Longrightarrow> js_add n 1 = n + 1"
  by (simp add: js_add_def round_double_safe)

text \<open>At \<open>2 ^ 53\<close> the sum with 1 is not a double and rounds back.\<close>

lemma js_add_at_limit: "js_add 9007199254740992 1 = 9007199254740992"
  by (simp add: js_add_def round_double_def round_magnitude_def round_spaced.simps
      nearest_multiple_def Let_def)

lemma number_text_safe: "0 \<le> n \<Longrightarrow> n < 2 ^ 53 \<Longrightarrow> number_text n = decimal (nat n)"
  by (simp add: number_text_def unsigned_text_def nat_less_iff)

subsection \<open>The widget\<close>

lemma View_found:
  "fetch_views env ident = Inr (Some row) \<Longrightarrow>
   View env ident =
     (Inr (view_markup (read_number (views row))),
      [After \<lparr> patch_id = ident,
               set_views = js_add (to_number (read_number (views row))) 1 \<rparr>])"
  by (simp add: View_def Let_def)

text \<open>A count up to \<open>2 ^ 53\<close> in magnitude is read as it is stored.\<close>

lemma read_number_safe: "\<bar>to_number v\<bar> \<le> 2 ^ 53 \<Longrightarrow> read_number v = v"
  by (cases v) (simp_all add: read_number_def to_number_def round_double_safe)

lemma round_double_2_60: "round_double 1152921504606846976 = 1152921504606846976"
  by (simp add: round_double_def round_magnitude_def round_spaced.simps nearest_multiple_def
      Let_def)

lemma text_content_view_markup:
  "text_content (view_markup v) =
     (if to_number v < 1 then ''No views''
      else number_text (to_number v) @ '' '' @ (if v = Some 1 then ''view'' else ''views''))"
  by (simp add: view_markup_def view_text_def)

lemma view_text_cases:
  "text_content (view_markup (Some 0)) = ''No views''"
  "text_content (view_markup (Some 1)) = ''1 view''"
  "2 \<le> n \<Longrightarrow> text_content (view_markup (Some n)) = number_text n @ '' views''"
  by (simp_all add: text_content_view_markup to_number_def number_text_def unsigned_text_def
      decimal_Suc_0)

text \<open>
  The text of a large count: \<open>2 ^ 60\<close> prints with seventeen digits and three zeros.
\<close>

lemma number_text_2_60: "number_text 1152921504606846976 = ''1152921504606847000''"
  by (simp add: number_text_def unsigned_text_def decimal.simps round_magnitude_def
      round_spaced.simps nearest_multiple_def Let_def)

lemma decimal_2_60: "decimal 1152921504606846976 = ''1152921504606846976''"
  by (simp add: decimal.simps)

text \<open>
  C5, as stated, fails: the observed count is \<open>2 ^ 53\<close>, and the write that the
  widget schedules sets the views to \<open>2 ^ 53\<close> again, the observed count itself, not
  the observed count plus one.
\<close>

theorem View_increment_counterexample:
  "fetch_views (views_env_with (Some 9007199254740992)) ''doc-1'' =
     Inr (Some \<lparr> views = Some 9007199254740992 \<rparr>)
   \<and> snd (View (views_env_with (Some 9007199254740992)) ''doc-1'') =
       [After \<lparr> patch_id = ''doc-1'', set_views = 9007199254740992 \<rparr>]"
proof -
  have f: "fetch_views (views_env_with (Some 9007199254740992)) ''doc-1'' =
             Inr (Some \<lparr> views = Some 9007199254740992 \<rparr>)"
    by (simp add: views_env_with_def)
  show ?thesis
    using f by (simp add: View_found read_number_safe to_number_def js_add_at_limit)
qed

text \<open>
  C5, amended. When the read finds the entity and the observed count is below
  \<open>2 ^ 53\<close> in magnitude (\<^verbatim>\<open>null\<close> counts as 0), the widget hands exactly one
  callback to \<^verbatim>\<open>after\<close>, the write that sets the views of the entity to the
  observed count plus one, and awaits no write itself. In the request around the
  render the response comes first and the commit of that write second, and the
  response is the markup of the observed count whatever the commit answers.
\<close>

theorem View_schedules_increment_after_response:
  assumes "fetch_views env ident = Inr (Some row)"
    and "\<bar>to_number (views row)\<bar> < 2 ^ 53"
  shows "snd (View env ident) =
           [After \<lparr> patch_id = ident, set_views = to_number (views row) + 1 \<rparr>]
       \<and> awaited (snd (View env ident)) = []
       \<and> serve commit (View env ident) =
           [Responded (Inr (view_markup (views row))),
            Committed \<lparr> patch_id = ident, set_views = to_number (views row) + 1 \<rparr>
              (commit \<lparr> patch_id = ident, set_views = to_number (views row) + 1 \<rparr>)]"
  using assms by (simp add: View_found serve_def js_add_safe read_number_safe)

theorem View_schedules_increment_after_response_witness:
  "fetch_views (views_env_with (Some 41)) ''doc-1'' = Inr (Some \<lparr> views = Some 41 \<rparr>)
   \<and> snd (View (views_env_with (Some 41)) ''doc-1'') =
       [After \<lparr> patch_id = ''doc-1'', set_views = 42 \<rparr>]
   \<and> serve (\<lambda>p. Some (Thrown ''write failed'')) (View (views_env_with (Some 41)) ''doc-1'') =
       [Responded (Inr (view_markup (Some 41))),
        Committed \<lparr> patch_id = ''doc-1'', set_views = 42 \<rparr> (Some (Thrown ''write failed''))]
   \<and> serve (\<lambda>p. None) (View (views_env_with (Some 41)) ''doc-1'') =
       [Responded (Inr (view_markup (Some 41))),
        Committed \<lparr> patch_id = ''doc-1'', set_views = 42 \<rparr> None]
   \<and> fetch_views (views_env_with None) ''doc-1'' = Inr (Some \<lparr> views = None \<rparr>)
   \<and> snd (View (views_env_with None) ''doc-1'') =
       [After \<lparr> patch_id = ''doc-1'', set_views = 1 \<rparr>]"
proof -
  have f: "fetch_views (views_env_with (Some 41)) ''doc-1'' = Inr (Some \<lparr> views = Some 41 \<rparr>)"
    by (simp add: views_env_with_def)
  have g: "fetch_views (views_env_with None) ''doc-1'' = Inr (Some \<lparr> views = None \<rparr>)"
    by (simp add: views_env_with_def)
  have b: "\<bar>to_number (views \<lparr> views = Some 41 \<rparr>)\<bar> < 2 ^ 53"
    by (simp add: to_number_def)
  have c: "\<bar>to_number (views \<lparr> views = None \<rparr>)\<bar> < 2 ^ 53"
    by (simp add: to_number_def)
  show ?thesis
    using f g
      View_schedules_increment_after_response
        [OF f b, of "\<lambda>p. Some (Thrown ''write failed'')"]
      View_schedules_increment_after_response [OF f b, of "\<lambda>p. None"]
      View_schedules_increment_after_response [OF g c, of "\<lambda>p. None"]
    by (simp add: to_number_def)
qed

text \<open>
  C6, as stated, fails: for the view count \<open>2 ^ 60\<close>, which is
  \<open>1152921504606846976\<close>, the widget renders \<open>1152921504606847000 views\<close>, not the
  digits of the count followed by the unit.
\<close>

theorem View_renders_count_counterexample:
  "fst (View (views_env_with (Some 1152921504606846976)) ''doc-1'') =
     Inr (view_markup (Some 1152921504606846976))
   \<and> text_content (view_markup (Some 1152921504606846976)) = ''1152921504606847000 views''
   \<and> decimal (nat 1152921504606846976) @ '' views'' = ''1152921504606846976 views''"
proof -
  have f: "fetch_views (views_env_with (Some 1152921504606846976)) ''doc-1'' =
             Inr (Some \<lparr> views = Some 1152921504606846976 \<rparr>)"
    by (simp add: views_env_with_def)
  have v: "fst (View (views_env_with (Some 1152921504606846976)) ''doc-1'') =
             Inr (view_markup (Some 1152921504606846976))"
    using f by (simp add: View_found read_number_def round_double_2_60)
  have t: "text_content (view_markup (Some 1152921504606846976)) = ''1152921504606847000 views''"
    by (simp add: view_text_cases(3) number_text_2_60)
  have d: "decimal (nat 1152921504606846976) @ '' views'' = ''1152921504606846976 views''"
    by (simp add: decimal_2_60)
  show ?thesis
    using v t d by (intro conjI)
qed

text \<open>
  C6, amended. For a view count \<open>n\<close> that is not negative and below \<open>2 ^ 53\<close> the
  widget renders the text \<open>No views\<close> when \<open>n\<close> is 0, \<open>1 view\<close> when \<open>n\<close> is 1,
  and the decimal digits of \<open>n\<close>, a space and \<open>views\<close> when \<open>n\<close> is at least 2.
\<close>

theorem View_renders_count:
  assumes "fetch_views env ident = Inr (Some \<lparr> views = Some n \<rparr>)"
    and "0 \<le> n" and "n < 2 ^ 53"
  shows "fst (View env ident) = Inr (view_markup (Some n))
       \<and> text_content (view_markup (Some n)) =
           (if n = 0 then ''No views''
            else if n = 1 then ''1 view''
            else decimal (nat n) @ '' views'')"
proof -
  have "fst (View env ident) = Inr (view_markup (Some n))"
    using assms by (simp add: View_found read_number_safe to_number_def)
  moreover have "text_content (view_markup (Some n)) =
           (if n = 0 then ''No views''
            else if n = 1 then ''1 view''
            else decimal (nat n) @ '' views'')"
  proof -
    consider "n = 0" | "n = 1" | "2 \<le> n"
      using assms(2) by linarith
    then show ?thesis
    proof cases
      case 3
      then show ?thesis
        using assms(3) by (simp add: view_text_cases number_text_safe)
    qed (simp_all add: view_text_cases)
  qed
  ultimately show ?thesis by simp
qed

theorem View_renders_count_witness:
  "fst (View (views_env_with (Some 0)) ''doc-1'') = Inr (view_markup (Some 0))
   \<and> text_content (view_markup (Some 0)) = ''No views''
   \<and> fst (View (views_env_with (Some 1)) ''doc-1'') = Inr (view_markup (Some 1))
   \<and> text_content (view_markup (Some 1)) = ''1 view''
   \<and> fst (View (views_env_with (Some 41)) ''doc-1'') = Inr (view_markup (Some 41))
   \<and> text_content (view_markup (Some 41)) = ''41 views''"
proof -
  have f: "fetch_views (views_env_with (Some n)) ''doc-1'' = Inr (Some \<lparr> views = Some n \<rparr>)"
    for n
    by (simp add: views_env_with_def)
  have n0: "(0::int) \<le> 0" and n1: "(0::int) \<le> 1" and n41: "(0::int) \<le> 41"
    by simp_all
  have b0: "(0::int) < 2 ^ 53" and b1: "(1::int) < 2 ^ 53" and b41: "(41::int) < 2 ^ 53"
    by simp_all
  show ?thesis
    using View_renders_count [OF f n0 b0] View_renders_count [OF f n1 b1]
      View_renders_count [OF f n41 b41]
    by (simp add: decimal_examples)
qed

section \<open>Properties of the detail page\<close>

lemma subtrees_self: "t \<in> set (subtrees t)"
  by (cases t) simp_all

lemma Page_not_found_iff:
  "(Page env ident = Inr NotFound) =
   (fetch_startup env ident = Inr None \<and>
    (\<exists>pl. fetch_playlist env ''editor-picks'' = Inr (Some pl)))"
  by (auto simp: Page_def promise_all2_def split: sum.splits option.splits prod.splits)

lemma Page_playlist_rejected:
  "fetch_startup env ident = Inr found \<Longrightarrow> fetch_playlist env ''editor-picks'' = Inl e \<Longrightarrow>
   Page env ident = Inl e"
  by (simp add: Page_def promise_all2_def)

lemma Page_rendered:
  "fetch_startup env ident = Inr (Some p) \<Longrightarrow>
   fetch_playlist env ''editor-picks'' = Inr (Some pl) \<Longrightarrow>
   Page env ident = Inr (Rendered (page_markup env ident p (select pl)))"
  by (simp add: Page_def promise_all2_def)

lemma pitch_details_in_page:
  "pitch_details (md_render env) p \<in> set (subtrees (page_markup env ident p picks))"
  by (simp add: page_markup_def subtrees_self)

text \<open>
  C7, as stated, fails: the id \<open>doc-2\<close> resolves to nothing and the read of the
  editor picks rejects; the page ends with the exception of that read, not with the
  not-found outcome.
\<close>

theorem Page_not_found_counterexample:
  "fetch_startup page_env_playlist_down ''doc-2'' = Inr None
   \<and> Page page_env_playlist_down ''doc-2'' = Inl (Thrown ''request failed'')
   \<and> Page page_env_playlist_down ''doc-2'' \<noteq> Inr NotFound"
  by (simp add: Page_def promise_all2_def page_env_playlist_down_def page_env_example_def)

text \<open>
  C7, amended. When the id resolves to nothing and the read of the editor picks
  returns a playlist, the page ends with the not-found outcome, which carries no
  markup. The page ends so only when both reads have completed, the first with
  nothing and the second with a playlist. When the id resolves to nothing and the
  read of the editor picks rejects, the page ends with the exception of that read.
\<close>

theorem Page_not_found_after_both_reads:
  "(fetch_startup env ident = Inr None \<and> fetch_playlist env ''editor-picks'' = Inr (Some pl)
      \<longrightarrow> Page env ident = Inr NotFound)
   \<and> (Page env ident = Inr NotFound
      \<longrightarrow> fetch_startup env ident = Inr None
          \<and> (\<exists>pl'. fetch_playlist env ''editor-picks'' = Inr (Some pl')))
   \<and> (fetch_startup env ident = Inr None \<and> fetch_playlist env ''editor-picks'' = Inl e
      \<longrightarrow> Page env ident = Inl e)"
proof (intro conjI impI)
  assume "fetch_startup env ident = Inr None \<and> fetch_playlist env ''editor-picks'' = Inr (Some pl)"
  then show "Page env ident = Inr NotFound"
    by (auto simp: Page_not_found_iff)
next
  assume "Page env ident = Inr NotFound"
  then show "fetch_startup env ident = Inr None"
    by (simp add: Page_not_found_iff)
next
  assume "Page env ident = Inr NotFound"
  then show "\<exists>pl'. fetch_playlist env ''editor-picks'' = Inr (Some pl')"
    by (simp add: Page_not_found_iff)
next
  assume "fetch_startup env ident = Inr None \<and> fetch_playlist env ''editor-picks'' = Inl e"
  then show "Page env ident = Inl e"
    by (simp add: Page_playlist_rejected)
qed

theorem Page_not_found_after_both_reads_witness:
  "fetch_startup page_env_example ''doc-2'' = Inr None
   \<and> fetch_playlist page_env_example ''editor-picks'' = Inr (Some \<lparr> select = Some [post_example] \<rparr>)
   \<and> Page page_env_example ''doc-2'' = Inr NotFound
   \<and> fetch_startup page_env_playlist_down ''doc-2'' = Inr None
   \<and> fetch_playlist page_env_playlist_down ''editor-picks'' = Inl (Thrown ''request failed'')
   \<and> Page page_env_playlist_down ''doc-2'' = Inl (Thrown ''request failed'')"
proof -
  have s: "fetch_startup page_env_example ''doc-2'' = Inr None"
    by (simp add: page_env_example_def)
  have l: "fetch_playlist page_env_example ''editor-picks'' =
             Inr (Some \<lparr> select = Some [post_example] \<rparr>)"
    by (simp add: page_env_example_def)
  have i: "fetch_startup page_env_example ''doc-2'' = Inr None
             \<and> fetch_playlist page_env_example ''editor-picks'' =
                 Inr (Some \<lparr> select = Some [post_example] \<rparr>)
           \<longrightarrow> Page page_env_example ''doc-2'' = Inr NotFound"
    using Page_not_found_after_both_reads
            [of page_env_example "''doc-2''" "\<lparr> select = Some [post_example] \<rparr>"]
    by (rule conjunct1)
  have found: "Page page_env_example ''doc-2'' = Inr NotFound"
    by (rule mp [OF i conjI [OF s l]])
  have s': "fetch_startup page_env_playlist_down ''doc-2'' = Inr None"
    by (simp add: page_env_playlist_down_def page_env_example_def)
  have l': "fetch_playlist page_env_playlist_down ''editor-picks'' = Inl (Thrown ''request failed'')"
    by (simp add: page_env_playlist_down_def)
  have j: "fetch_startup page_env_playlist_down ''doc-2'' = Inr None
             \<and> fetch_playlist page_env_playlist_down ''editor-picks'' =
                 Inl (Thrown ''request failed'')
           \<longrightarrow> Page page_env_playlist_down ''doc-2'' = Inl (Thrown ''request failed'')"
    using Page_not_found_after_both_reads
            [of page_env_playlist_down "''doc-2''" _ "Thrown ''request failed''"]
    by (rule conjunct2 [THEN conjunct2])
  have failed: "Page page_env_playlist_down ''doc-2'' = Inl (Thrown ''request failed'')"
    by (rule mp [OF j conjI [OF s' l']])
  show ?thesis
    using s l found s' l' failed by (intro conjI)
qed

text \<open>Where the placeholder and the article stand in the tree of the page.\<close>

lemma subtrees_cards: "concat (map subtrees (map StartupCard ps)) = map StartupCard ps"
  by (induction ps) simp_all

lemma subtrees_editor_picks:
  "x \<in> set (editor_picks picks) \<Longrightarrow> t \<in> set (subtrees x) \<Longrightarrow>
   (\<exists>c. t = StartupCard c) \<or> t = Text ''Editor Picks''
   \<or> (\<exists>cls cs. t = Elem ''div'' cls cs) \<or> (\<exists>cs. t = Elem ''ul'' [(''className'', ''mt-7 card_grid-sm'')] cs)
   \<or> t = Elem ''p'' [(''className'', ''text-30-semibold'')] [Text ''Editor Picks'']"
  by (auto simp: editor_picks_def subtrees_cards split: option.splits list.splits)

lemma subtrees_author_link:
  "t \<in> set (subtrees (author_link p)) \<Longrightarrow>
   (\<exists>a cs. t = Elem ''Link'' a cs) \<or> (\<exists>a. t = Elem ''Image'' a []) \<or> (\<exists>cs. t = Elem ''div'' [] cs)
   \<or> (\<exists>cs. t = Elem ''p'' [(''className'', ''text-20-medium'')] cs)
   \<or> (\<exists>cs. t = Elem ''p'' [(''className'', ''text-16-medium'')] cs)
   \<or> (\<exists>s. t = Text s)"
  by (auto simp: author_link_def split: option.splits)

lemma placeholder_in_page_iff:
  "(Elem ''p'' [(''className'', ''no-result'')] [Text ''No details provided'']
      \<in> set (subtrees (page_markup env ident p picks)))
   = (parsedContent (md_render env) p = '''')"
  by (auto simp: page_markup_def pitch_details_def
      dest: subtrees_editor_picks subtrees_author_link)

lemma article_in_page_iff:
  "(Elem ''article'' attrs cs \<in> set (subtrees (page_markup env ident p picks)))
   = (parsedContent (md_render env) p \<noteq> '''' \<and>
      attrs = [(''className'', ''prose max-w-4xl font-work-sans break-all''),
               (''dangerouslySetInnerHTML'', parsedContent (md_render env) p)] \<and>
      cs = [])"
  by (auto simp: page_markup_def pitch_details_def
      dest: subtrees_editor_picks subtrees_author_link)

text \<open>
  C9, as stated, fails: the pitch body of the post \<open>doc-1\<close> is three spaces, which
  is not empty, and the converter renders it to nothing; the page shows the
  placeholder, not converted HTML.
\<close>

theorem Page_pitch_details_counterexample:
  "p_pitch blank_post = Some ''   ''
   \<and> Page page_env_blank_pitch ''doc-1'' =
       Inr (Rendered (page_markup page_env_blank_pitch ''doc-1'' blank_post
                        (Some [post_example])))
   \<and> pitch_details (md_render page_env_blank_pitch) blank_post =
       Elem ''p'' [(''className'', ''no-result'')] [Text ''No details provided'']
   \<and> Elem ''p'' [(''className'', ''no-result'')] [Text ''No details provided'']
       \<in> set (subtrees (page_markup page_env_blank_pitch ''doc-1'' blank_post
                           (Some [post_example])))"
proof -
  have c: "parsedContent (md_render page_env_blank_pitch) blank_post = ''''"
    by (simp add: parsedContent_def page_env_blank_pitch_def page_env_example_def
        blank_post_def md_paragraph_def)
  have b: "p_pitch blank_post = Some ''   ''"
    by (simp add: blank_post_def)
  have r: "Page page_env_blank_pitch ''doc-1'' =
       Inr (Rendered (page_markup page_env_blank_pitch ''doc-1'' blank_post
                        (Some [post_example])))"
    by (simp add: Page_def promise_all2_def page_env_blank_pitch_def page_env_example_def)
  have d: "pitch_details (md_render page_env_blank_pitch) blank_post =
       Elem ''p'' [(''className'', ''no-result'')] [Text ''No details provided'']"
    using c by (simp add: pitch_details_def)
  have m: "Elem ''p'' [(''className'', ''no-result'')] [Text ''No details provided'']
       \<in> set (subtrees (page_markup page_env_blank_pitch ''doc-1'' blank_post
                           (Some [post_example])))"
    using c by (simp add: placeholder_in_page_iff)
  show ?thesis
    using b r d m by (intro conjI)
qed

text \<open>
  C9, amended. For an entity that exists (and a playlist that was read), and with
  a converter that renders the empty string to the empty string, a pitch body that
  is empty or absent makes the page render the placeholder \<open>No details provided\<close>
  and no article. A pitch body whose converted HTML is not empty makes the page
  render the article with that HTML, the only article of the page, and no
  placeholder. A pitch body whose converted HTML is empty, as it is for a body of
  blank characters, makes the page render the placeholder and no article.
\<close>

theorem Page_pitch_details:
  assumes "fetch_startup env ident = Inr (Some p)"
    and "fetch_playlist env ''editor-picks'' = Inr (Some pl)"
  shows "Page env ident = Inr (Rendered (page_markup env ident p (select pl)))
       \<and> (md_render env '''' = '''' \<and> (p_pitch p = None \<or> p_pitch p = Some '''') \<longrightarrow>
            Elem ''p'' [(''className'', ''no-result'')] [Text ''No details provided'']
              \<in> set (subtrees (page_markup env ident p (select pl)))
            \<and> (\<forall>attrs cs. Elem ''article'' attrs cs
                  \<notin> set (subtrees (page_markup env ident p (select pl)))))
       \<and> (p_pitch p = Some body \<and> md_render env body \<noteq> '''' \<longrightarrow>
            Elem ''article''
              [(''className'', ''prose max-w-4xl font-work-sans break-all''),
               (''dangerouslySetInnerHTML'', md_render env body)] []
              \<in> set (subtrees (page_markup env ident p (select pl)))
            \<and> (\<forall>attrs cs. Elem ''article'' attrs cs
                    \<in> set (subtrees (page_markup env ident p (select pl))) \<longrightarrow>
                  attrs = [(''className'', ''prose max-w-4xl font-work-sans break-all''),
                           (''dangerouslySetInnerHTML'', md_render env body)] \<and> cs = [])
            \<and> Elem ''p'' [(''className'', ''no-result'')] [Text ''No details provided'']
                \<notin> set (subtrees (page_markup env ident p (select pl))))
       \<and> (p_pitch p = Some body \<and> md_render env body = '''' \<longrightarrow>
            Elem ''p'' [(''className'', ''no-result'')] [Text ''No details provided'']
              \<in> set (subtrees (page_markup env ident p (select pl)))
            \<and> (\<forall>attrs cs. Elem ''article'' attrs cs
                  \<notin> set (subtrees (page_markup env ident p (select pl)))))"
proof -
  have r: "Page env ident = Inr (Rendered (page_markup env ident p (select pl)))"
    using assms by (rule Page_rendered)
  have a: "md_render env '''' = '''' \<and> (p_pitch p = None \<or> p_pitch p = Some '''') \<longrightarrow>
            Elem ''p'' [(''className'', ''no-result'')] [Text ''No details provided'']
              \<in> set (subtrees (page_markup env ident p (select pl)))
            \<and> (\<forall>attrs cs. Elem ''article'' attrs cs
                  \<notin> set (subtrees (page_markup env ident p (select pl))))"
    by (auto simp: placeholder_in_page_iff article_in_page_iff parsedContent_def)
  have b: "p_pitch p = Some body \<and> md_render env body \<noteq> '''' \<longrightarrow>
            Elem ''article''
              [(''className'', ''prose max-w-4xl font-work-sans break-all''),
               (''dangerouslySetInnerHTML'', md_render env body)] []
              \<in> set (subtrees (page_markup env ident p (select pl)))
            \<and> (\<forall>attrs cs. Elem ''article'' attrs cs
                    \<in> set (subtrees (page_markup env ident p (select pl))) \<longrightarrow>
                  attrs = [(''className'', ''prose max-w-4xl font-work-sans break-all''),
                           (''dangerouslySetInnerHTML'', md_render env body)] \<and> cs = [])
            \<and> Elem ''p'' [(''className'', ''no-result'')] [Text ''No details provided'']
                \<notin> set (subtrees (page_markup env ident p (select pl)))"
    by (auto simp: placeholder_in_page_iff article_in_page_iff parsedContent_def)
  have c: "p_pitch p = Some body \<and> md_render env body = '''' \<longrightarrow>
            Elem ''p'' [(''className'', ''no-result'')] [Text ''No details provided'']
              \<in> set (subtrees (page_markup env ident p (select pl)))
            \<and> (\<forall>attrs cs. Elem ''article'' attrs cs
                  \<notin> set (subtrees (page_markup env ident p (select pl))))"
    by (auto simp: placeholder_in_page_iff article_in_page_iff parsedContent_def)
  show ?thesis
    using r a b c by (intro conjI)
qed

theorem Page_pitch_details_witness:
  "md_render page_env_no_pitch '''' = ''''
   \<and> p_pitch bare_post = None
   \<and> Page page_env_no_pitch ''doc-1'' =
       Inr (Rendered (page_markup page_env_no_pitch ''doc-1'' bare_post (Some [post_example])))
   \<and> Elem ''p'' [(''className'', ''no-result'')] [Text ''No details provided'']
       \<in> set (subtrees (page_markup page_env_no_pitch ''doc-1'' bare_post
                           (Some [post_example])))
   \<and> p_pitch post_example = Some ''We build things''
   \<and> md_render page_env_example ''We build things'' = ''<p>We build things</p>'' @ [CHR 0x0A]
   \<and> Page page_env_example ''doc-1'' =
       Inr (Rendered (page_markup page_env_example ''doc-1'' post_example
                        (Some [post_example])))
   \<and> Elem ''article''
         [(''className'', ''prose max-w-4xl font-work-sans break-all''),
          (''dangerouslySetInnerHTML'', ''<p>We build things</p>'' @ [CHR 0x0A])] []
       \<in> set (subtrees (page_markup page_env_example ''doc-1'' post_example
                           (Some [post_example])))
   \<and> Elem ''p'' [(''className'', ''no-result'')] [Text ''No details provided'']
       \<notin> set (subtrees (page_markup page_env_example ''doc-1'' post_example
                           (Some [post_example])))
   \<and> p_pitch blank_post = Some ''   ''
   \<and> md_render page_env_blank_pitch ''   '' = ''''
   \<and> Elem ''p'' [(''className'', ''no-result'')] [Text ''No details provided'']
       \<in> set (subtrees (page_markup page_env_blank_pitch ''doc-1'' blank_post
                           (Some [post_example])))"
proof -
  have s1: "fetch_startup page_env_no_pitch ''doc-1'' = Inr (Some bare_post)"
    by (simp add: page_env_no_pitch_def)
  have l1: "fetch_playlist page_env_no_pitch ''editor-picks'' =
              Inr (Some \<lparr> select = Some [post_example] \<rparr>)"
    by (simp add: page_env_no_pitch_def page_env_example_def)
  have m1: "md_render page_env_no_pitch '''' = ''''"
    by (simp add: page_env_no_pitch_def page_env_example_def md_paragraph_def)
  have b1: "p_pitch bare_post = None"
    by (simp add: bare_post_def)
  have first:
    "Page page_env_no_pitch ''doc-1'' =
       Inr (Rendered (page_markup page_env_no_pitch ''doc-1'' bare_post (Some [post_example])))
     \<and> Elem ''p'' [(''className'', ''no-result'')] [Text ''No details provided'']
         \<in> set (subtrees (page_markup page_env_no_pitch ''doc-1'' bare_post
                             (Some [post_example])))"
    using m1 b1 Page_pitch_details [OF s1 l1, of "''''"] by simp
  have s2: "fetch_startup page_env_example ''doc-1'' = Inr (Some post_example)"
    by (simp add: page_env_example_def)
  have l2: "fetch_playlist page_env_example ''editor-picks'' =
              Inr (Some \<lparr> select = Some [post_example] \<rparr>)"
    by (simp add: page_env_example_def)
  have m2: "md_render page_env_example ''We build things'' =
              ''<p>We build things</p>'' @ [CHR 0x0A]"
    by (simp add: page_env_example_def md_paragraph_def plain_line_def)
  have b2: "p_pitch post_example = Some ''We build things''"
    by (simp add: post_example_def)
  have second:
    "Page page_env_example ''doc-1'' =
       Inr (Rendered (page_markup page_env_example ''doc-1'' post_example
                        (Some [post_example])))
     \<and> Elem ''article''
         [(''className'', ''prose max-w-4xl font-work-sans break-all''),
          (''dangerouslySetInnerHTML'', ''<p>We build things</p>'' @ [CHR 0x0A])] []
         \<in> set (subtrees (page_markup page_env_example ''doc-1'' post_example
                             (Some [post_example])))
     \<and> Elem ''p'' [(''className'', ''no-result'')] [Text ''No details provided'']
         \<notin> set (subtrees (page_markup page_env_example ''doc-1'' post_example
                             (Some [post_example])))"
    using m2 b2 Page_pitch_details [OF s2 l2, of "''We build things''"] by simp
  have s3: "fetch_startup page_env_blank_pitch ''doc-1'' = Inr (Some blank_post)"
    by (simp add: page_env_blank_pitch_def)
  have l3: "fetch_playlist page_env_blank_pitch ''editor-picks'' =
              Inr (Some \<lparr> select = Some [post_example] \<rparr>)"
    by (simp add: page_env_blank_pitch_def page_env_example_def)
  have m3: "md_render page_env_blank_pitch ''   '' = ''''"
    by (simp add: page_env_blank_pitch_def page_env_example_def md_paragraph_def)
  have b3: "p_pitch blank_post = Some ''   ''"
    by (simp add: blank_post_def)
  have third:
    "Elem ''p'' [(''className'', ''no-result'')] [Text ''No details provided'']
       \<in> set (subtrees (page_markup page_env_blank_pitch ''doc-1'' blank_post
                           (Some [post_example])))"
    using m3 b3 Page_pitch_details [OF s3 l3, of "''   ''"] by simp
  show ?thesis
    using m1 b1 first b2 m2 second b3 m3 third by (intro conjI) simp_all
qed

section \<open>Properties of the list page\<close>

lemma Home_read:
  "snd (Home env query) = [SanityFetch ''STARTUPS_QUERY'' (home_params query)]"
  by (simp add: Home_def Let_def)

lemma Home_rendered:
  "sanityFetch env ''STARTUPS_QUERY'' (home_params query) = Inr posts \<Longrightarrow>
   fst (Home env query) = Inr (home_markup query posts)"
  by (simp add: Home_def Let_def)

text \<open>The cards and the message in the tree of the page.\<close>

lemma card_in_home_iff:
  "(StartupCard c \<in> set (subtrees (home_markup query posts)))
   = (\<exists>ps. posts = Some ps \<and> c \<in> set ps)"
  by (auto simp: home_markup_def card_grid_def subtrees_cards split: option.splits list.splits)

lemma message_in_home_iff:
  "(Elem ''p'' [(''className'', ''no-results'')] [Text ''No Results Found'']
      \<in> set (subtrees (home_markup query posts)))
   = (posts = None \<or> posts = Some [])"
  by (auto simp: home_markup_def card_grid_def subtrees_cards split: option.splits list.splits)

text \<open>
  C8. With a search text \<open>q\<close> in the query parameters (a text that is not empty) the
  page issues the list query with \<open>q\<close> itself as the filter parameter; with no
  search text, which is a parameter that is missing or empty, it issues the list
  query with the filter \<^verbatim>\<open>null\<close>. The page renders the list that the query
  returns: when the list is empty, the message \<open>No Results Found\<close> and no card;
  when it is not, exactly the cards of its posts and no message.
\<close>

theorem Home_filter_and_no_results:
  "(q \<noteq> '''' \<longrightarrow>
      snd (Home env (Some q)) = [SanityFetch ''STARTUPS_QUERY'' \<lparr> search = Some q \<rparr>])
   \<and> snd (Home env None) = [SanityFetch ''STARTUPS_QUERY'' \<lparr> search = None \<rparr>]
   \<and> snd (Home env (Some '''')) = [SanityFetch ''STARTUPS_QUERY'' \<lparr> search = None \<rparr>]
   \<and> (sanityFetch env ''STARTUPS_QUERY'' (home_params query) = Inr (Some []) \<longrightarrow>
        fst (Home env query) = Inr (home_markup query (Some []))
        \<and> Elem ''p'' [(''className'', ''no-results'')] [Text ''No Results Found'']
            \<in> set (subtrees (home_markup query (Some [])))
        \<and> (\<forall>c. StartupCard c \<notin> set (subtrees (home_markup query (Some [])))))
   \<and> (sanityFetch env ''STARTUPS_QUERY'' (home_params query) = Inr (Some (x # xs)) \<longrightarrow>
        fst (Home env query) = Inr (home_markup query (Some (x # xs)))
        \<and> (\<forall>c. (StartupCard c \<in> set (subtrees (home_markup query (Some (x # xs)))))
                 = (c \<in> set (x # xs)))
        \<and> Elem ''p'' [(''className'', ''no-results'')] [Text ''No Results Found'']
            \<notin> set (subtrees (home_markup query (Some (x # xs)))))"
proof -
  have a: "q \<noteq> '''' \<longrightarrow>
      snd (Home env (Some q)) = [SanityFetch ''STARTUPS_QUERY'' \<lparr> search = Some q \<rparr>]"
    by (simp add: Home_read home_params_def)
  have b: "snd (Home env None) = [SanityFetch ''STARTUPS_QUERY'' \<lparr> search = None \<rparr>]"
    by (simp add: Home_read home_params_def)
  have c: "snd (Home env (Some '''')) = [SanityFetch ''STARTUPS_QUERY'' \<lparr> search = None \<rparr>]"
    by (simp add: Home_read home_params_def)
  have d: "sanityFetch env ''STARTUPS_QUERY'' (home_params query) = Inr (Some []) \<longrightarrow>
        fst (Home env query) = Inr (home_markup query (Some []))
        \<and> Elem ''p'' [(''className'', ''no-results'')] [Text ''No Results Found'']
            \<in> set (subtrees (home_markup query (Some [])))
        \<and> (\<forall>c. StartupCard c \<notin> set (subtrees (home_markup query (Some []))))"
    by (simp add: Home_rendered card_in_home_iff message_in_home_iff)
  have e: "sanityFetch env ''STARTUPS_QUERY'' (home_params query) = Inr (Some (x # xs)) \<longrightarrow>
        fst (Home env query) = Inr (home_markup query (Some (x # xs)))
        \<and> (\<forall>c. (StartupCard c \<in> set (subtrees (home_markup query (Some (x # xs)))))
                 = (c \<in> set (x # xs)))
        \<and> Elem ''p'' [(''className'', ''no-results'')] [Text ''No Results Found'']
            \<notin> set (subtrees (home_markup query (Some (x # xs))))"
    by (simp add: Home_rendered card_in_home_iff message_in_home_iff)
  show ?thesis
    using a b c d e by (intro conjI)
qed

theorem Home_filter_and_no_results_witness:
  "snd (Home home_env_example (Some ''health'')) =
     [SanityFetch ''STARTUPS_QUERY'' \<lparr> search = Some ''health'' \<rparr>]
   \<and> snd (Home home_env_example None) = [SanityFetch ''STARTUPS_QUERY'' \<lparr> search = None \<rparr>]
   \<and> snd (Home home_env_example (Some '''')) =
       [SanityFetch ''STARTUPS_QUERY'' \<lparr> search = None \<rparr>]
   \<and> sanityFetch home_env_example ''STARTUPS_QUERY'' (home_params (Some ''health''))
       = Inr (Some [])
   \<and> fst (Home home_env_example (Some ''health'')) = Inr (home_markup (Some ''health'') (Some []))
   \<and> Elem ''p'' [(''className'', ''no-results'')] [Text ''No Results Found'']
       \<in> set (subtrees (home_markup (Some ''health'') (Some [])))
   \<and> sanityFetch home_env_example ''STARTUPS_QUERY'' (home_params (Some ''tech''))
       = Inr (Some [post_example])
   \<and> fst (Home home_env_example (Some ''tech'')) =
       Inr (home_markup (Some ''tech'') (Some [post_example]))
   \<and> StartupCard post_example \<in> set (subtrees (home_markup (Some ''tech'') (Some [post_example])))
   \<and> Elem ''p'' [(''className'', ''no-results'')] [Text ''No Results Found'']
       \<notin> set (subtrees (home_markup (Some ''tech'') (Some [post_example])))"
proof -
  have q: "''health'' \<noteq> ''''"
    by simp
  have f: "sanityFetch home_env_example ''STARTUPS_QUERY'' (home_params (Some ''health''))
             = Inr (Some [])"
    by (simp add: home_env_example_def home_params_def)
  have g: "sanityFetch home_env_example ''STARTUPS_QUERY'' (home_params (Some ''tech''))
             = Inr (Some [post_example])"
    by (simp add: home_env_example_def home_params_def)
  have first:
    "snd (Home home_env_example (Some ''health'')) =
       [SanityFetch ''STARTUPS_QUERY'' \<lparr> search = Some ''health'' \<rparr>]
     \<and> snd (Home home_env_example None) = [SanityFetch ''STARTUPS_QUERY'' \<lparr> search = None \<rparr>]
     \<and> snd (Home home_env_example (Some '''')) =
         [SanityFetch ''STARTUPS_QUERY'' \<lparr> search = None \<rparr>]
     \<and> fst (Home home_env_example (Some ''health'')) =
         Inr (home_markup (Some ''health'') (Some []))
     \<and> Elem ''p'' [(''className'', ''no-results'')] [Text ''No Results Found'']
         \<in> set (subtrees (home_markup (Some ''health'') (Some [])))"
    using q f Home_filter_and_no_results [of "''health''" home_env_example "Some ''health''"]
    by blast
  have second:
    "fst (Home home_env_example (Some ''tech'')) =
       Inr (home_markup (Some ''tech'') (Some [post_example]))
     \<and> StartupCard post_example
         \<in> set (subtrees (home_markup (Some ''tech'') (Some [post_example])))
     \<and> Elem ''p'' [(''className'', ''no-results'')] [Text ''No Results Found'']
         \<notin> set (subtrees (home_markup (Some ''tech'') (Some [post_example])))"
    using g Home_filter_and_no_results
              [of _ home_env_example "Some ''tech''" post_example "[]"]
    by simp
  show ?thesis
    using first f g second by (intro conjI) simp_all
qed

end
